theory Spec2Isabelle
  imports Complex_Main "HOL-Library.Multiset" "HOL-Library.AList"
begin

section \<open>Live analytics: data model\<close>

text \<open>
  The live analytics engine is TypeScript. A JavaScript number is an IEEE-754 double; the
  model takes every finite number as a \<^typ>\<open>real\<close> with exact arithmetic, and keeps the
  three non-finite doubles apart (\<open>jsnum\<close>) at the one place where the code tests for
  them, the normalizer. \<open>Math.round x\<close> is \<open>\<lfloor>x + 1/2\<rfloor>\<close>, which is \<^const>\<open>round\<close>.
  Record fields keep the source's names; a field name shared by two interfaces carries a
  short prefix in all but one of them (\<open>d_\<close> for a definition, \<open>m_\<close> for its metadata,
  \<open>tp_\<close> for a trend point, \<open>r_\<close> for a raw event), and \<open>id\<close>, \<open>value\<close> and
  \<open>floor\<close>, which are taken in HOL, are \<open>metric_id\<close>, \<open>val\<close> (\<open>ev_value\<close> in an
  event) and \<open>floor_min\<close>. A function that can throw returns \<open>error + 'a\<close>, with
  \<open>Inl\<close> for the exception.
\<close>

datatype LiveMetricTrendDirection = up | down | steady

datatype LiveMetricFormat = currency | percentage | duration | count_format

datatype AnomalyStatus = ok | warning | critical

datatype Bound = upper | lower

datatype error = TypeError | RangeError | IOError

record LiveMetricThresholds =
  upperWarning :: "real option"
  upperCritical :: "real option"
  lowerWarning :: "real option"
  lowerCritical :: "real option"

record LiveMetricAnomaly =
  status :: AnomalyStatus
  breachedThreshold :: "Bound option"
  thresholdValue :: "real option"
  message :: string
  magnitude :: real

text \<open>A trend point's timestamp is the time value in milliseconds that the source renders
  with \<open>toISOString\<close>; the text is a function of that integer.\<close>

record LiveMetricTrendPoint =
  tp_timestamp :: int
  tp_value :: real

record LiveMetric =
  metric_id :: string
  label :: string
  format :: LiveMetricFormat
  unit :: string
  val :: real
  delta :: real
  direction :: LiveMetricTrendDirection
  trend :: "LiveMetricTrendPoint list"
  thresholds :: "LiveMetricThresholds option"
  anomaly :: "LiveMetricAnomaly option"

record LiveAnalyticsSnapshot =
  generatedAt :: int
  windowSeconds :: int
  metrics :: "LiveMetric list"
  narrative :: string

record LiveMetricDefinition =
  d_id :: string
  d_label :: string
  d_unit :: string
  d_format :: LiveMetricFormat
  baseline :: real
  amplitude :: real
  volatility :: real
  wavePeriod :: real
  d_narrativeFocus :: string
  phase :: "real option"
  floor_min :: "real option"
  directionBias :: "LiveMetricTrendDirection option"
  d_thresholds :: "LiveMetricThresholds option"

record LiveMetricMetadata =
  m_id :: string
  m_label :: string
  m_unit :: string
  m_format :: LiveMetricFormat
  narrativeFocus :: string
  m_thresholds :: "LiveMetricThresholds option"

record StreamEvent =
  metricId :: string
  timestamp :: real
  ev_value :: real

section \<open>The metric catalog\<close>

definition liveMetricDefinitions :: "LiveMetricDefinition list" where
  "liveMetricDefinitions =
    [ \<lparr> d_id = ''network_spend_velocity'', d_label = ''Network Spend Velocity'',
        d_unit = ''USD/min'', d_format = currency, baseline = 42000000,
        amplitude = 3200000, volatility = 1800000, wavePeriod = 18,
        d_narrativeFocus = ''portfolio spend acceleration'', phase = Some (21 / 10),
        floor_min = None, directionBias = None,
        d_thresholds = Some \<lparr> upperWarning = Some 45000000, upperCritical = Some 52000000,
                               lowerWarning = None, lowerCritical = None \<rparr> \<rparr>,
      \<lparr> d_id = ''fraud_block_rate'', d_label = ''Fraud Block Rate'',
        d_unit = ''bps'', d_format = percentage, baseline = 82,
        amplitude = 6, volatility = 3, wavePeriod = 12,
        d_narrativeFocus = ''fraud interception efficiency'', phase = Some (56 / 10),
        floor_min = None, directionBias = Some up,
        d_thresholds = Some \<lparr> upperWarning = None, upperCritical = None,
                               lowerWarning = Some 70, lowerCritical = Some 60 \<rparr> \<rparr>,
      \<lparr> d_id = ''authorization_latency'', d_label = ''Authorization Latency'',
        d_unit = ''ms'', d_format = duration, baseline = 280,
        amplitude = 68, volatility = 36, wavePeriod = 16,
        d_narrativeFocus = ''payment flow responsiveness'', phase = Some (314 / 100),
        floor_min = Some 120, directionBias = Some down,
        d_thresholds = Some \<lparr> upperWarning = Some 320, upperCritical = Some 420,
                               lowerWarning = None, lowerCritical = None \<rparr> \<rparr>,
      \<lparr> d_id = ''signal_activation'', d_label = ''Signal Activation Velocity'',
        d_unit = ''signals/hr'', d_format = count_format, baseline = 148,
        amplitude = 22, volatility = 18, wavePeriod = 10,
        d_narrativeFocus = ''ecosystem insight activation'', phase = None,
        floor_min = None, directionBias = None,
        d_thresholds = Some \<lparr> upperWarning = None, upperCritical = None,
                               lowerWarning = Some 120, lowerCritical = Some 90 \<rparr> \<rparr> ]"

definition toMetadata :: "LiveMetricDefinition \<Rightarrow> LiveMetricMetadata" where
  "toMetadata d = \<lparr> m_id = d_id d, m_label = d_label d, m_unit = d_unit d,
                     m_format = d_format d, narrativeFocus = d_narrativeFocus d,
                     m_thresholds = d_thresholds d \<rparr>"

definition liveMetricCatalog :: "LiveMetricMetadata list" where
  "liveMetricCatalog = map toMetadata liveMetricDefinitions"

text \<open>\<open>new Map(entries)\<close>: a later entry for the same key replaces an earlier one.\<close>

definition newMap :: "('k \<times> 'v) list \<Rightarrow> 'k \<rightharpoonup> 'v" where
  "newMap entries = map_of (rev entries)"

definition liveMetricMetadataById :: "string \<rightharpoonup> LiveMetricMetadata" where
  "liveMetricMetadataById = newMap (map (\<lambda>entry. (m_id entry, entry)) liveMetricCatalog)"

definition syntheticById :: "string \<rightharpoonup> LiveMetricDefinition" where
  "syntheticById = newMap (map (\<lambda>definition. (d_id definition, definition)) liveMetricDefinitions)"

section \<open>Number formatting\<close>

text \<open>\<open>Number.prototype.toString\<close> on an integer and \<open>toFixed(1)\<close>, for magnitudes below
  \<open>10^21\<close> (above it both switch to exponent notation, which the thresholds and values
  of this catalog never reach).\<close>

definition digit :: "nat \<Rightarrow> char" where
  "digit n = ''0123456789'' ! n"

function showNat :: "nat \<Rightarrow> string" where
  "showNat n = (if n < 10 then [digit n] else showNat (n div 10) @ [digit (n mod 10)])"
  by pat_completeness auto
termination
  by (relation "measure id") auto

definition intToString :: "real \<Rightarrow> string" where
  "intToString v = (if v < 0 then ''-'' else '''') @ showNat (nat \<lfloor>\<bar>v\<bar>\<rfloor>)"

definition toFixed1 :: "real \<Rightarrow> string" where
  "toFixed1 x =
     (let n = nat \<lfloor>\<bar>x\<bar> * 10 + 1 / 2\<rfloor>
      in (if x < 0 then ''-'' else '''') @ showNat (n div 10) @ ''.'' @ showNat (n mod 10))"

definition formatNumber :: "real \<Rightarrow> string" where
  "formatNumber v =
     (if \<bar>v\<bar> \<ge> 1000000 then toFixed1 (v / 1000000) @ ''M''
      else if \<bar>v\<bar> \<ge> 1000 then toFixed1 (v / 1000) @ ''K''
      else if real_of_int \<lfloor>v\<rfloor> = v then intToString v
      else toFixed1 v)"

definition roundMagnitude :: "real \<Rightarrow> real" where
  "roundMagnitude v = real_of_int (round (\<bar>v\<bar> * 100)) / 100"

section \<open>Shared logic: direction, anomaly, narrative\<close>

definition EPSILON :: real where
  "EPSILON = 1 / 10000"

definition resolveDirection :: "real \<Rightarrow> LiveMetricTrendDirection" where
  "resolveDirection d = (if \<bar>d\<bar> \<le> EPSILON then steady else if d > 0 then up else down)"

text \<open>\<open>determineClosestThreshold\<close>: the configured thresholds in the order upperWarning,
  upperCritical, lowerWarning, lowerCritical, each with its distance to the value, sorted
  by distance (the sort is stable); the first one, or nothing when none is configured.\<close>

definition determineClosestThreshold :: "real \<Rightarrow> LiveMetricThresholds \<Rightarrow> (real \<times> real) option" where
  "determineClosestThreshold v t =
     (let candidates = List.map_filter (\<lambda>c. c)
            [upperWarning t, upperCritical t, lowerWarning t, lowerCritical t];
          diffs = map (\<lambda>candidate. (candidate, \<bar>candidate - v\<bar>)) candidates
      in if candidates = [] then None else Some (hd (sort_key snd diffs)))"

definition evaluateAnomaly :: "real \<Rightarrow> LiveMetricThresholds option \<Rightarrow> LiveMetricAnomaly" where
  "evaluateAnomaly v thresholds_opt =
     (case thresholds_opt of
        None \<Rightarrow> \<lparr> status = ok, breachedThreshold = None, thresholdValue = None,
                  message = ''No guardrails configured'', magnitude = 0 \<rparr>
      | Some t \<Rightarrow>
          if upperCritical t \<noteq> None \<and> v \<ge> the (upperCritical t) then
            \<lparr> status = critical, breachedThreshold = Some upper,
              thresholdValue = upperCritical t,
              message = ''Above critical ceiling ('' @ formatNumber (the (upperCritical t)) @ '')'',
              magnitude = roundMagnitude (v - the (upperCritical t)) \<rparr>
          else if lowerCritical t \<noteq> None \<and> v \<le> the (lowerCritical t) then
            \<lparr> status = critical, breachedThreshold = Some lower,
              thresholdValue = lowerCritical t,
              message = ''Below critical floor ('' @ formatNumber (the (lowerCritical t)) @ '')'',
              magnitude = roundMagnitude (the (lowerCritical t) - v) \<rparr>
          else if upperWarning t \<noteq> None \<and> v \<ge> the (upperWarning t) then
            \<lparr> status = warning, breachedThreshold = Some upper,
              thresholdValue = upperWarning t,
              message = ''Tracking above watch band ('' @ formatNumber (the (upperWarning t)) @ '')'',
              magnitude = roundMagnitude (v - the (upperWarning t)) \<rparr>
          else if lowerWarning t \<noteq> None \<and> v \<le> the (lowerWarning t) then
            \<lparr> status = warning, breachedThreshold = Some lower,
              thresholdValue = lowerWarning t,
              message = ''Tracking below watch band ('' @ formatNumber (the (lowerWarning t)) @ '')'',
              magnitude = roundMagnitude (the (lowerWarning t) - v) \<rparr>
          else
            (case determineClosestThreshold v t of
               None \<Rightarrow> \<lparr> status = ok, breachedThreshold = None, thresholdValue = None,
                         message = ''Within healthy band'', magnitude = 0 \<rparr>
             | Some (cv, gap) \<Rightarrow>
                 \<lparr> status = ok, breachedThreshold = None, thresholdValue = Some cv,
                   message = ''Within healthy band ('' @ [CHR 0xC2, CHR 0xB1] @ formatNumber gap @ '')'',
                   magnitude = gap \<rparr>))"


text \<open>\<open>Array.prototype.find\<close> with a callback that may throw: the callback runs on the
  elements in order and the first exception ends the search.\<close>

fun findE :: "('a \<Rightarrow> error + bool) \<Rightarrow> 'a list \<Rightarrow> error + 'a option" where
  "findE p [] = Inr None"
| "findE p (x # xs) =
     (case p x of
        Inl e \<Rightarrow> Inl e
      | Inr b \<Rightarrow> if b then Inr (Some x) else findE p xs)"

text \<open>\<open>String.prototype.trim\<close> and \<open>toLowerCase\<close> on ASCII text (the catalog's labels,
  units and focus phrases are ASCII).\<close>

definition isWhiteSpace :: "char \<Rightarrow> bool" where
  "isWhiteSpace c = (c \<in> set [CHR 0x20, CHR 0x09, CHR 0x0A, CHR 0x0B, CHR 0x0C, CHR 0x0D])"

definition trim :: "string \<Rightarrow> string" where
  "trim s = rev (dropWhile isWhiteSpace (rev (dropWhile isWhiteSpace s)))"

definition toLowerCase :: "string \<Rightarrow> string" where
  "toLowerCase s =
     map (\<lambda>c. if 65 \<le> (of_char c :: nat) \<and> (of_char c :: nat) \<le> 90
               then char_of ((of_char c :: nat) + 32) else c) s"

definition changePhrase :: "LiveMetric \<Rightarrow> string \<Rightarrow> string" where
  "changePhrase metric focus =
     (let directionWord = (if direction metric = down then ''softened''
                           else if direction metric = steady then ''held steady''
                           else ''climbed'');
          change = formatNumber \<bar>delta metric\<bar>
      in trim (directionWord @ '' '' @ change
               @ (if unit metric \<noteq> [] then '' '' @ unit metric else [])
               @ '' for '' @ focus))"

text \<open>\<open>buildPhrase\<close>: the boundary phrase when the anomaly is present and not ok, else
  the change phrase (the source's last two statements, here \<open>changePhrase\<close>).\<close>

definition buildPhrase :: "LiveMetric \<Rightarrow> string \<Rightarrow> string" where
  "buildPhrase metric focus =
     (case anomaly metric of
        None \<Rightarrow> changePhrase metric focus
      | Some a \<Rightarrow>
          if status a \<noteq> ok then
            (let severity = (if status a = critical then ''triggered'' else ''nudged'');
                 bound = (case thresholdValue a of Some tv \<Rightarrow> formatNumber tv | None \<Rightarrow> []);
                 boundary = (if breachedThreshold a = Some lower then ''floor'' else ''ceiling'');
                 descriptor = (if bound \<noteq> [] then trim (bound @ '' '' @ unit metric)
                               else ''threshold'')
             in severity @ '' the '' @ boundary @ '' ('' @ descriptor @ '') for '' @ focus)
          else changePhrase metric focus)"

definition severityScore :: "LiveMetric \<Rightarrow> real" where
  "severityScore metric =
     (case anomaly metric of
        None \<Rightarrow> \<bar>delta metric\<bar>
      | Some a \<Rightarrow>
          (if status a = critical then 1000 else if status a = warning then 500 else 0)
            + magnitude a + \<bar>delta metric\<bar>)"

definition focusOf :: "LiveMetric \<Rightarrow> string" where
  "focusOf metric =
     (case liveMetricMetadataById (metric_id metric) of
        Some metadata \<Rightarrow> narrativeFocus metadata
      | None \<Rightarrow> toLowerCase (label metric))"

text \<open>\<open>composeNarrative\<close>. The sort is JavaScript's stable sort with the comparator
  \<open>severityScore b - severityScore a\<close>, that is, descending by score. \<open>secondary\<close> is
  looked for before \<open>primary\<close> is tested, and its callback reads \<open>primary.id\<close>: a read
  through an undefined \<open>primary\<close> is the \<open>TypeError\<close> branch.\<close>

definition composeNarrative :: "LiveMetric list \<Rightarrow> error + string" where
  "composeNarrative ms =
     (let bySeverity = sort_key (\<lambda>m. - severityScore m) ms;
          primary = (case bySeverity of [] \<Rightarrow> None | p # _ \<Rightarrow> Some p)
      in case findE (\<lambda>metric. case primary of
                                 None \<Rightarrow> Inl TypeError
                               | Some p \<Rightarrow> Inr (metric_id metric \<noteq> metric_id p)) bySeverity of
           Inl e \<Rightarrow> Inl e
         | Inr secondary \<Rightarrow>
             (case primary of
                None \<Rightarrow> Inr ''Live telemetry steady across monitored signals.''
              | Some p \<Rightarrow>
                  (case secondary of
                     None \<Rightarrow> Inr (''Live telemetry '' @ buildPhrase p (focusOf p) @ ''.'')
                   | Some s \<Rightarrow>
                       Inr (''Live telemetry '' @ buildPhrase p (focusOf p) @ '' while ''
                            @ buildPhrase s (focusOf s) @ ''.''))))"


text \<open>The two breach tests of \<open>evaluateAnomaly\<close>, named for the statements below: a
  threshold that is not configured is never breached.\<close>

definition breachesUpper :: "real \<Rightarrow> real option \<Rightarrow> bool" where
  "breachesUpper v th = (case th of None \<Rightarrow> False | Some c \<Rightarrow> v \<ge> c)"

definition breachesLower :: "real \<Rightarrow> real option \<Rightarrow> bool" where
  "breachesLower v th = (case th of None \<Rightarrow> False | Some c \<Rightarrow> v \<le> c)"

section \<open>Event normalizer\<close>

text \<open>
  A raw payload is untyped JSON. \<open>jsnum\<close> is a JavaScript number, \<open>jsval\<close> a JavaScript
  value; an object or array is kept only as what \<open>Number()\<close> makes of it (\<open>[]\<close> gives 0,
  \<open>{}\<close> gives \<open>NaN\<close>), which is all the two normalizers ever ask of one. A field that is
  absent reads as \<open>Undefined\<close>. \<open>Date.parse\<close> and \<open>Number\<close> on a string belong to the
  JavaScript runtime and are parameters: \<open>dateParse s\<close> is \<open>None\<close> for \<open>NaN\<close> and the time
  value otherwise, \<open>stringToNumber s\<close> is the number \<open>Number(s)\<close>.
\<close>

datatype jsnum = Finite real | PosInfinity | NegInfinity | NaN




text \<open>\<open>!timestamp\<close> on a \<open>number | null\<close>: \<open>null\<close> and 0 are falsy (\<open>NaN\<close> never gets here).\<close>

definition falsy :: "real option \<Rightarrow> bool" where
  "falsy t = (t = None \<or> t = Some 0)"

















section \<open>Queue buffer\<close>




definition flattenBuffers :: "(string \<times> StreamEvent list) list \<Rightarrow> StreamEvent list" where
  "flattenBuffers buffers = concat (map snd buffers)"


section \<open>Synthetic fallback generator\<close>

text \<open>\<open>Math.round(v * 100) / 100\<close>, written inline in the source.\<close>

definition round2 :: "real \<Rightarrow> real" where
  "round2 v = real_of_int (round (v * 100)) / 100"

text \<open>\<open>new Date(t).toISOString()\<close>: the time value is \<open>t\<close> truncated towards zero, and the
  date is invalid, so that \<open>toISOString\<close> throws a \<open>RangeError\<close>, when \<open>|t|\<close> exceeds
  8.64e15. The result is the time value the text renders.\<close>

definition toISOString :: "real \<Rightarrow> error + int" where
  "toISOString t =
     (if \<bar>t\<bar> > 8640000000000000 then Inl RangeError
      else Inr (if t \<ge> 0 then \<lfloor>t\<rfloor> else \<lceil>t\<rceil>))"

fun mapE :: "('a \<Rightarrow> error + 'b) \<Rightarrow> 'a list \<Rightarrow> error + 'b list" where
  "mapE f [] = Inr []"
| "mapE f (x # xs) =
     (case f x of
        Inl e \<Rightarrow> Inl e
      | Inr y \<Rightarrow> (case mapE f xs of Inl e \<Rightarrow> Inl e | Inr ys \<Rightarrow> Inr (y # ys)))"

definition TREND_POINTS :: nat where
  "TREND_POINTS = 10"

definition pseudoRandom :: "real \<Rightarrow> real" where
  "pseudoRandom seed = (let x = sin seed * 10000 in x - real_of_int \<lfloor>x\<rfloor>)"

definition directionalBias :: "LiveMetricDefinition \<Rightarrow> int \<Rightarrow> real" where
  "directionalBias definition tick =
     (case directionBias definition of
        None \<Rightarrow> 0
      | Some b \<Rightarrow>
          (let biasAmplitude = amplitude definition * (12 / 100);
               modifier = sin ((real_of_int tick + 11) / (wavePeriod definition * 4)) * biasAmplitude
           in if b = up then \<bar>modifier\<bar> else - \<bar>modifier\<bar>))"

definition computeValue :: "LiveMetricDefinition \<Rightarrow> int \<Rightarrow> real" where
  "computeValue definition tick =
     (let sinusoid = amplitude definition
            * sin ((real_of_int tick + (case phase definition of None \<Rightarrow> 0 | Some p \<Rightarrow> p))
                   / wavePeriod definition);
          random = (pseudoRandom (real_of_int tick) - 1 / 2) * 2 * volatility definition;
          total = baseline definition + sinusoid + random + directionalBias definition tick
      in case floor_min definition of None \<Rightarrow> total | Some f \<Rightarrow> max f total)"

text \<open>\<open>buildTrend\<close>: the loop runs \<open>index\<close> from \<open>TREND_POINTS - 1\<close> down to 0 and pushes the
  point of tick \<open>tick - (TREND_POINTS - 1 - index)\<close>.\<close>

definition buildTrend :: "LiveMetricDefinition \<Rightarrow> int \<Rightarrow> int \<Rightarrow> error + LiveMetricTrendPoint list" where
  "buildTrend definition tick issuedAt =
     mapE (\<lambda>index.
             (let back = int TREND_POINTS - 1 - index;
                  currentTick = tick - back;
                  v = computeValue definition currentTick
              in case toISOString (real_of_int (issuedAt - back * 15000)) of
                   Inl e \<Rightarrow> Inl e
                 | Inr ts \<Rightarrow> Inr \<lparr> tp_timestamp = ts, tp_value = round2 v \<rparr>))
          (rev [0 .. int TREND_POINTS - 1])"

definition buildStaticMetric :: "string \<Rightarrow> LiveMetric" where
  "buildStaticMetric ident =
     (case liveMetricMetadataById ident of
        None \<Rightarrow>
          \<lparr> metric_id = ident, label = ident, format = count_format, unit = [], val = 0,
            delta = 0, direction = steady, trend = [], thresholds = None,
            anomaly = Some \<lparr> status = ok, breachedThreshold = None, thresholdValue = None,
                             message = ''No data'', magnitude = 0 \<rparr> \<rparr>
      | Some metadata \<Rightarrow>
          \<lparr> metric_id = m_id metadata, label = m_label metadata, format = m_format metadata,
            unit = m_unit metadata, val = 0, delta = 0, direction = steady, trend = [],
            thresholds = m_thresholds metadata,
            anomaly = Some (evaluateAnomaly 0 (m_thresholds metadata)) \<rparr>)"

definition syntheticMetric :: "int \<Rightarrow> int \<Rightarrow> LiveMetricMetadata \<Rightarrow> error + LiveMetric" where
  "syntheticMetric tick issuedAt metadata =
     (case syntheticById (m_id metadata) of
        None \<Rightarrow> Inr (buildStaticMetric (m_id metadata))
      | Some definition \<Rightarrow>
          (case buildTrend definition tick issuedAt of
             Inl e \<Rightarrow> Inl e
           | Inr trend_points \<Rightarrow>
               (let latest = (if trend_points = [] then baseline definition
                              else tp_value (last trend_points));
                    previous = (if length trend_points \<ge> 2
                                then tp_value (trend_points ! (length trend_points - 2))
                                else latest);
                    d = round2 (latest - previous)
                in Inr \<lparr> metric_id = m_id metadata, label = m_label metadata,
                         format = m_format metadata, unit = m_unit metadata,
                         val = round2 latest, delta = d, direction = resolveDirection d,
                         trend = trend_points, thresholds = m_thresholds metadata,
                         anomaly = Some (evaluateAnomaly latest (m_thresholds metadata)) \<rparr>)))"

text \<open>\<open>generateSyntheticSnapshot\<close>; \<open>issuedAt\<close> is the reading of \<open>Date.now()\<close>.\<close>

definition generateSyntheticSnapshot :: "int \<Rightarrow> int \<Rightarrow> error + LiveAnalyticsSnapshot" where
  "generateSyntheticSnapshot window issuedAt =
     (let tick = issuedAt div 15000
      in case mapE (syntheticMetric tick issuedAt) liveMetricCatalog of
           Inl e \<Rightarrow> Inl e
         | Inr ms \<Rightarrow>
             (case toISOString (real_of_int issuedAt) of
                Inl e \<Rightarrow> Inl e
              | Inr stamp \<Rightarrow>
                  (case composeNarrative ms of
                     Inl e \<Rightarrow> Inl e
                   | Inr text \<Rightarrow>
                       Inr \<lparr> generatedAt = stamp, windowSeconds = window, metrics = ms,
                              narrative = text \<rparr>)))"




section \<open>Snapshot builder\<close>

definition DEFAULT_WINDOW_SECONDS :: int where
  "DEFAULT_WINDOW_SECONDS = 120"

text \<open>\<open>Number.parseInt(env ?? '', 10) || DEFAULT_WINDOW_SECONDS\<close>: the argument is what
  \<open>parseInt\<close> returns, \<open>None\<close> for \<open>NaN\<close>; \<open>NaN\<close> and 0 are falsy.\<close>

definition resolveWindowSeconds :: "int option \<Rightarrow> int" where
  "resolveWindowSeconds parsed =
     (case parsed of None \<Rightarrow> DEFAULT_WINDOW_SECONDS
      | Some n \<Rightarrow> if n = 0 then DEFAULT_WINDOW_SECONDS else n)"

text \<open>The grouping loop of \<open>buildSnapshot\<close>: a \<open>Map\<close> from metric id to the events of that
  id, in arrival order.\<close>

definition groupEvents :: "StreamEvent list \<Rightarrow> (string \<times> StreamEvent list) list" where
  "groupEvents events =
     foldl (\<lambda>grouped event.
              case map_of grouped (metricId event) of
                None \<Rightarrow> AList.update (metricId event) [event] grouped
              | Some bucket \<Rightarrow> AList.update (metricId event) (bucket @ [event]) grouped)
           [] events"

text \<open>The events the trend of one metric is drawn from: the group sorted by timestamp,
  clipped to the window that ends at the latest timestamp, and sliced to the last
  \<open>TREND_POINTS\<close> (\<open>slice(-TREND_POINTS)\<close>).\<close>

definition trendEventsOf :: "int \<Rightarrow> StreamEvent list \<Rightarrow> StreamEvent list" where
  "trendEventsOf window grp =
     (let sorted = sort_key timestamp grp;
          latestTimestamp = timestamp (last sorted);
          windowStart = latestTimestamp - real_of_int window * 1000;
          clipped = filter (\<lambda>event. timestamp event \<ge> windowStart) sorted
      in drop (length clipped - TREND_POINTS) clipped)"

text \<open>The body of the catalog \<open>map\<close> for a metric that has events (\<open>grp\<close> is not empty).\<close>

definition buildMetric :: "int \<Rightarrow> LiveMetricMetadata \<Rightarrow> StreamEvent list \<Rightarrow> error + LiveMetric" where
  "buildMetric window metadata grp =
     (let sorted = sort_key timestamp grp;
          trendEvents = trendEventsOf window grp;
          latestValue = (if trendEvents \<noteq> [] then ev_value (last trendEvents)
                         else ev_value (last sorted));
          previousValue = (if length trendEvents \<ge> 2
                           then ev_value (trendEvents ! (length trendEvents - 2))
                           else latestValue);
          d = round2 (latestValue - previousValue)
      in case mapE (\<lambda>event. case toISOString (timestamp event) of
                               Inl e \<Rightarrow> Inl e
                             | Inr ts \<Rightarrow> Inr \<lparr> tp_timestamp = ts,
                                                tp_value = round2 (ev_value event) \<rparr>)
                   trendEvents of
           Inl e \<Rightarrow> Inl e
         | Inr trend_points \<Rightarrow>
             Inr \<lparr> metric_id = m_id metadata, label = m_label metadata,
                    format = m_format metadata, unit = m_unit metadata,
                    val = round2 latestValue, delta = d, direction = resolveDirection d,
                    trend = trend_points, thresholds = m_thresholds metadata,
                    anomaly = Some (evaluateAnomaly latestValue (m_thresholds metadata)) \<rparr>)"

text \<open>The catalog \<open>map\<close> with its two running extremes \<open>globalLatest\<close> and
  \<open>globalEarliest\<close>. A metric without events takes the fallback's metric of the same id;
  the fallback is built over the same catalog, so the lookup always succeeds, and the
  \<open>undefined\<close> it would otherwise hand to \<open>composeNarrative\<close> is the \<open>TypeError\<close> branch.\<close>

fun buildMetrics ::
  "int \<Rightarrow> (string \<rightharpoonup> StreamEvent list) \<Rightarrow> (string \<rightharpoonup> LiveMetric) \<Rightarrow> LiveMetricMetadata list
     \<Rightarrow> real \<Rightarrow> real \<Rightarrow> error + (LiveMetric list \<times> real \<times> real)" where
  "buildMetrics window grouped fallbackById [] globalLatest globalEarliest =
     Inr ([], globalLatest, globalEarliest)"
| "buildMetrics window grouped fallbackById (metadata # rest) globalLatest globalEarliest =
     (case (case grouped (m_id metadata) of
              None \<Rightarrow> (case fallbackById (m_id metadata) of
                          None \<Rightarrow> Inl TypeError
                        | Some m \<Rightarrow> Inr (m, globalLatest, globalEarliest))
            | Some grp \<Rightarrow>
                if grp = [] then
                  (case fallbackById (m_id metadata) of
                     None \<Rightarrow> Inl TypeError
                   | Some m \<Rightarrow> Inr (m, globalLatest, globalEarliest))
                else
                  (let latestTimestamp = timestamp (last (sort_key timestamp grp));
                       trendEvents = trendEventsOf window grp;
                       latest' = (if latestTimestamp > globalLatest then latestTimestamp
                                  else globalLatest);
                       earliest' = (case trendEvents of
                                      [] \<Rightarrow> globalEarliest
                                    | first # _ \<Rightarrow> min globalEarliest (timestamp first))
                   in case buildMetric window metadata grp of
                        Inl e \<Rightarrow> Inl e
                      | Inr m \<Rightarrow> Inr (m, latest', earliest'))) of
        Inl e \<Rightarrow> Inl e
      | Inr (m, latest', earliest') \<Rightarrow>
          (case buildMetrics window grouped fallbackById rest latest' earliest' of
             Inl e \<Rightarrow> Inl e
           | Inr (ms, gl, ge) \<Rightarrow> Inr (m # ms, gl, ge)))"

text \<open>\<open>buildSnapshot\<close>; \<open>clock\<close> is the caller's \<open>Date.now()\<close> and \<open>issuedAt\<close> the reading
  the synthetic generator takes.\<close>

definition buildSnapshot ::
  "int \<Rightarrow> StreamEvent list \<Rightarrow> int \<Rightarrow> int \<Rightarrow> error + LiveAnalyticsSnapshot" where
  "buildSnapshot window events clock issuedAt =
     (case generateSyntheticSnapshot window issuedAt of
        Inl e \<Rightarrow> Inl e
      | Inr fallback \<Rightarrow>
          if events = [] then Inr fallback
          else
            (let fallbackById = newMap (map (\<lambda>metric. (metric_id metric, metric))
                                            (metrics fallback));
                 grouped = map_of (groupEvents events)
             in case buildMetrics window grouped fallbackById liveMetricCatalog
                       0 (real_of_int clock) of
                  Inl e \<Rightarrow> Inl e
                | Inr (ms, globalLatest, globalEarliest) \<Rightarrow>
                    (case (if globalLatest > 0 then toISOString globalLatest
                           else Inr (generatedAt fallback)) of
                       Inl e \<Rightarrow> Inl e
                     | Inr stamp \<Rightarrow>
                         (let derivedWindow =
                                (if globalLatest > 0
                                 then max 1 (round ((globalLatest - globalEarliest) / 1000))
                                 else windowSeconds fallback)
                          in case composeNarrative ms of
                               Inl e \<Rightarrow> Inl e
                             | Inr text \<Rightarrow>
                                 Inr \<lparr> generatedAt = stamp, windowSeconds = derivedWindow,
                                        metrics = ms, narrative = text \<rparr>))))"

section \<open>Source adapters and the snapshot cache\<close>

text \<open>
  What the three adapters deliver is input to the model: for the queue buffer the outcome
  of \<open>getKafkaStreamEvents\<close>, for the remote stream the outcome of the fetch and of
  \<open>parseStreamPayload\<close> on its body, for the local file the outcome of \<open>readFile\<close> and
  \<open>parseStreamPayload\<close>; \<open>Inl\<close> is a thrown error, which the source catches and logs.
\<close>

record Sources =
  kafkaEnabled :: bool
  kafkaOutcome :: "error + StreamEvent list"
  streamUrlSet :: bool
  fetchOutcome :: "error + StreamEvent list"
  fileOutcome :: "error + StreamEvent list"

record RemoteStreamCache =
  rs_loadedAt :: int
  rs_events :: "StreamEvent list"

record SnapshotCache =
  loadedAt :: int
  snapshot :: "LiveAnalyticsSnapshot option"

record ServiceState =
  cache :: SnapshotCache
  remoteStreamCache :: RemoteStreamCache

text \<open>One call of \<open>getLiveAnalyticsSnapshot\<close>: the three clock readings it takes (on entry,
  in \<open>loadStreamEvents\<close>, in the synthetic generator) and what the adapters deliver.\<close>

record Call =
  now :: int
  loadNow :: int
  issuedNow :: int
  sources :: Sources

definition CACHE_TTL_MS :: int where
  "CACHE_TTL_MS = 3000"

text \<open>\<open>STREAM_POLL_MS = Math.max(2000, (parseInt(env) || 15) * 1000)\<close>.\<close>

definition STREAM_POLL_MS :: "int option \<Rightarrow> int" where
  "STREAM_POLL_MS parsed =
     max 2000 ((case parsed of None \<Rightarrow> 15 | Some n \<Rightarrow> if n = 0 then 15 else n) * 1000)"

definition initialState :: ServiceState where
  "initialState = \<lparr> cache = \<lparr> loadedAt = 0, snapshot = None \<rparr>,
                    remoteStreamCache = \<lparr> rs_loadedAt = 0, rs_events = [] \<rparr> \<rparr>"

definition readFileEvents :: "Sources \<Rightarrow> StreamEvent list" where
  "readFileEvents src = (case fileOutcome src of Inl e \<Rightarrow> [] | Inr events \<Rightarrow> events)"

definition loadStreamEvents ::
  "int \<Rightarrow> Sources \<Rightarrow> RemoteStreamCache \<Rightarrow> int \<Rightarrow> StreamEvent list \<times> RemoteStreamCache" where
  "loadStreamEvents pollMs src remote clock =
     (case (if kafkaEnabled src
            then (case kafkaOutcome src of
                    Inl e \<Rightarrow> None
                  | Inr kafkaEvents \<Rightarrow> if length kafkaEvents > 0 then Some kafkaEvents else None)
            else None) of
        Some kafkaEvents \<Rightarrow> (kafkaEvents, remote)
      | None \<Rightarrow>
          if streamUrlSet src then
            (if length (rs_events remote) > 0 \<and> clock - rs_loadedAt remote < pollMs
             then (rs_events remote, remote)
             else (case fetchOutcome src of
                     Inl e \<Rightarrow> (readFileEvents src, remote)
                   | Inr events \<Rightarrow>
                       if length events > 0
                       then (events, \<lparr> rs_loadedAt = clock, rs_events = events \<rparr>)
                       else (readFileEvents src, remote)))
          else (readFileEvents src, remote))"

definition getLiveAnalyticsSnapshot ::
  "int \<Rightarrow> int \<Rightarrow> ServiceState \<Rightarrow> Call \<Rightarrow> (error + LiveAnalyticsSnapshot) \<times> ServiceState" where
  "getLiveAnalyticsSnapshot window pollMs st call =
     (if snapshot (cache st) \<noteq> None \<and> now call - loadedAt (cache st) < CACHE_TTL_MS
      then (Inr (the (snapshot (cache st))), st)
      else
        (let (events, remote') = loadStreamEvents pollMs (sources call) (remoteStreamCache st)
                                   (loadNow call)
         in case buildSnapshot window events (now call) (issuedNow call) of
              Inl e \<Rightarrow> (Inl e, st \<lparr> remoteStreamCache := remote' \<rparr>)
            | Inr built \<Rightarrow>
                (Inr built, \<lparr> cache = \<lparr> loadedAt = now call, snapshot = Some built \<rparr>,
                              remoteStreamCache = remote' \<rparr>)))"

text \<open>An adapter yields zero events when it is switched off, fails, or delivers an empty
  list; the remote stream also yields events when its poll cache is filled and fresh.\<close>

definition deliversNothing :: "error + StreamEvent list \<Rightarrow> bool" where
  "deliversNothing outcome = (case outcome of Inl e \<Rightarrow> True | Inr events \<Rightarrow> events = [])"

definition allAdaptersYieldZero :: "int \<Rightarrow> ServiceState \<Rightarrow> Call \<Rightarrow> bool" where
  "allAdaptersYieldZero pollMs st call =
     ((kafkaEnabled (sources call) \<longrightarrow> deliversNothing (kafkaOutcome (sources call)))
      \<and> (streamUrlSet (sources call) \<longrightarrow>
            \<not> (rs_events (remoteStreamCache st) \<noteq> []
               \<and> loadNow call - rs_loadedAt (remoteStreamCache st) < pollMs)
            \<and> deliversNothing (fetchOutcome (sources call)))
      \<and> deliversNothing (fileOutcome (sources call)))"

text \<open>\<open>Date.now()\<close> is a time value; the generator also renders the nine ticks before it.\<close>

definition validClock :: "int \<Rightarrow> bool" where
  "validClock t = (135000 - 8640000000000000 \<le> t \<and> t \<le> 8640000000000000)"

definition cacheFresh :: "ServiceState \<Rightarrow> Call \<Rightarrow> bool" where
  "cacheFresh st call =
     (snapshot (cache st) \<noteq> None \<and> now call - loadedAt (cache st) < CACHE_TTL_MS)"



section \<open>Verified properties\<close>

subsection \<open>Anomaly evaluation\<close>

lemma breachesUpper_iff: "breachesUpper v th \<longleftrightarrow> th \<noteq> None \<and> v \<ge> the th"
  by (cases th) (simp_all add: breachesUpper_def)

lemma breachesLower_iff: "breachesLower v th \<longleftrightarrow> th \<noteq> None \<and> v \<le> the th"
  by (cases th) (simp_all add: breachesLower_def)

text \<open>
  C3. \<open>evaluateAnomaly\<close> tests the thresholds in the order upperCritical (value at or above
  it), lowerCritical (value at or below it), upperWarning, lowerWarning, and reports the
  first band that is breached, or ok when none is. With \<open>{upperWarning: 45000000,
  upperCritical: 52000000}\<close> and value 53000000 the result is critical, upper, magnitude
  1000000; with \<open>{lowerWarning: 70, lowerCritical: 60}\<close> and value 65 it is warning, lower.
\<close>

theorem evaluateAnomaly_priority_order:
  "(breachesUpper v (upperCritical t) \<longrightarrow>
      status (evaluateAnomaly v (Some t)) = critical
      \<and> breachedThreshold (evaluateAnomaly v (Some t)) = Some upper
      \<and> thresholdValue (evaluateAnomaly v (Some t)) = upperCritical t)
   \<and> (\<not> breachesUpper v (upperCritical t) \<and> breachesLower v (lowerCritical t) \<longrightarrow>
      status (evaluateAnomaly v (Some t)) = critical
      \<and> breachedThreshold (evaluateAnomaly v (Some t)) = Some lower
      \<and> thresholdValue (evaluateAnomaly v (Some t)) = lowerCritical t)
   \<and> (\<not> breachesUpper v (upperCritical t) \<and> \<not> breachesLower v (lowerCritical t)
        \<and> breachesUpper v (upperWarning t) \<longrightarrow>
      status (evaluateAnomaly v (Some t)) = warning
      \<and> breachedThreshold (evaluateAnomaly v (Some t)) = Some upper
      \<and> thresholdValue (evaluateAnomaly v (Some t)) = upperWarning t)
   \<and> (\<not> breachesUpper v (upperCritical t) \<and> \<not> breachesLower v (lowerCritical t)
        \<and> \<not> breachesUpper v (upperWarning t) \<and> breachesLower v (lowerWarning t) \<longrightarrow>
      status (evaluateAnomaly v (Some t)) = warning
      \<and> breachedThreshold (evaluateAnomaly v (Some t)) = Some lower
      \<and> thresholdValue (evaluateAnomaly v (Some t)) = lowerWarning t)
   \<and> (\<not> breachesUpper v (upperCritical t) \<and> \<not> breachesLower v (lowerCritical t)
        \<and> \<not> breachesUpper v (upperWarning t) \<and> \<not> breachesLower v (lowerWarning t) \<longrightarrow>
      status (evaluateAnomaly v (Some t)) = ok
      \<and> breachedThreshold (evaluateAnomaly v (Some t)) = None)
   \<and> (let a = evaluateAnomaly 53000000
                 (Some \<lparr> upperWarning = Some 45000000, upperCritical = Some 52000000,
                          lowerWarning = None, lowerCritical = None \<rparr>)
       in status a = critical \<and> breachedThreshold a = Some upper \<and> magnitude a = 1000000)
   \<and> (let a = evaluateAnomaly 65
                 (Some \<lparr> upperWarning = None, upperCritical = None,
                          lowerWarning = Some 70, lowerCritical = Some 60 \<rparr>)
       in status a = warning \<and> breachedThreshold a = Some lower)"
proof -
  have ex1: "(let a = evaluateAnomaly 53000000
                 (Some \<lparr> upperWarning = Some 45000000, upperCritical = Some 52000000,
                          lowerWarning = None, lowerCritical = None \<rparr>)
       in status a = critical \<and> breachedThreshold a = Some upper \<and> magnitude a = 1000000)"
    by (simp add: evaluateAnomaly_def roundMagnitude_def)
  have ex2: "(let a = evaluateAnomaly 65
                 (Some \<lparr> upperWarning = None, upperCritical = None,
                          lowerWarning = Some 70, lowerCritical = Some 60 \<rparr>)
       in status a = warning \<and> breachedThreshold a = Some lower)"
    by (simp add: evaluateAnomaly_def)
  have healthy: "\<not> breachesUpper v (upperCritical t) \<and> \<not> breachesLower v (lowerCritical t)
        \<and> \<not> breachesUpper v (upperWarning t) \<and> \<not> breachesLower v (lowerWarning t) \<longrightarrow>
      status (evaluateAnomaly v (Some t)) = ok
      \<and> breachedThreshold (evaluateAnomaly v (Some t)) = None"
    by (simp add: evaluateAnomaly_def breachesUpper_iff breachesLower_iff
          split: option.splits prod.splits)
  show ?thesis
    using ex1 ex2 healthy
    by (simp add: evaluateAnomaly_def breachesUpper_iff breachesLower_iff)
qed

theorem evaluateAnomaly_priority_order_witness:
  "status (evaluateAnomaly 430 (Some \<lparr> upperWarning = Some 320, upperCritical = Some 420,
                                lowerWarning = Some 450, lowerCritical = Some 440 \<rparr>)) = critical
   \<and> breachedThreshold (evaluateAnomaly 430 (Some \<lparr> upperWarning = Some 320, upperCritical = Some 420,
                                lowerWarning = Some 450, lowerCritical = Some 440 \<rparr>)) = Some upper
   \<and> breachedThreshold (evaluateAnomaly 50 (Some \<lparr> upperWarning = Some 40, upperCritical = Some 420,
                                lowerWarning = Some 70, lowerCritical = Some 60 \<rparr>)) = Some lower
   \<and> status (evaluateAnomaly 50 (Some \<lparr> upperWarning = Some 40, upperCritical = Some 420,
                                lowerWarning = Some 70, lowerCritical = Some 60 \<rparr>)) = critical
   \<and> thresholdValue (evaluateAnomaly 330 (Some \<lparr> upperWarning = Some 320, upperCritical = Some 420,
                                lowerWarning = Some 350, lowerCritical = None \<rparr>)) = Some 320
   \<and> thresholdValue (evaluateAnomaly 65 (Some \<lparr> upperWarning = None, upperCritical = None,
                                lowerWarning = Some 70, lowerCritical = Some 60 \<rparr>)) = Some 70
   \<and> status (evaluateAnomaly 300 (Some \<lparr> upperWarning = Some 320, upperCritical = Some 420,
                                lowerWarning = None, lowerCritical = None \<rparr>)) = ok"
  using
    evaluateAnomaly_priority_order [of 430 "\<lparr> upperWarning = Some 320, upperCritical = Some 420,
                                lowerWarning = Some 450, lowerCritical = Some 440 \<rparr>"]
    evaluateAnomaly_priority_order [of 50 "\<lparr> upperWarning = Some 40, upperCritical = Some 420,
                                lowerWarning = Some 70, lowerCritical = Some 60 \<rparr>"]
    evaluateAnomaly_priority_order [of 330 "\<lparr> upperWarning = Some 320, upperCritical = Some 420,
                                lowerWarning = Some 350, lowerCritical = None \<rparr>"]
    evaluateAnomaly_priority_order [of 65 "\<lparr> upperWarning = None, upperCritical = None,
                                lowerWarning = Some 70, lowerCritical = Some 60 \<rparr>"]
    evaluateAnomaly_priority_order [of 300 "\<lparr> upperWarning = Some 320, upperCritical = Some 420,
                                lowerWarning = None, lowerCritical = None \<rparr>"]
  by (simp add: breachesUpper_def breachesLower_def)

text \<open>
  C4. The claim: the magnitude is always the distance to the threshold rounded to two
  decimals. The four breach branches round with \<open>roundMagnitude\<close>; the healthy branch
  returns the raw gap of \<open>determineClosestThreshold\<close>. For authorization latency
  (\<open>upperWarning\<close> 320, \<open>upperCritical\<close> 420) and the value 300.123 the status is ok, the
  nearest threshold is 320 and the magnitude is 19.877, where rounding gives 19.88.
\<close>

theorem evaluateAnomaly_healthy_magnitude_unrounded:
  "status (evaluateAnomaly (300123 / 1000)
       (Some \<lparr> upperWarning = Some 320, upperCritical = Some 420,
                lowerWarning = None, lowerCritical = None \<rparr>)) = ok
   \<and> thresholdValue (evaluateAnomaly (300123 / 1000)
       (Some \<lparr> upperWarning = Some 320, upperCritical = Some 420,
                lowerWarning = None, lowerCritical = None \<rparr>)) = Some 320
   \<and> magnitude (evaluateAnomaly (300123 / 1000)
       (Some \<lparr> upperWarning = Some 320, upperCritical = Some 420,
                lowerWarning = None, lowerCritical = None \<rparr>)) = 19877 / 1000
   \<and> roundMagnitude (300123 / 1000 - 320) = 1988 / 100"
  by (simp add: evaluateAnomaly_def determineClosestThreshold_def List.map_filter_def
        roundMagnitude_def round_def)

subsection \<open>Narrative\<close>

lemma findE_total: "findE (\<lambda>x. Inr (P x)) xs = Inr (List.find P xs)"
  by (induction xs) simp_all






subsection \<open>Event normalizer\<close>



lemma falsy_simps [simp]: "falsy None" "falsy (Some t) \<longleftrightarrow> t = 0"
  by (simp_all add: falsy_def)











subsection \<open>Queue buffer and window order\<close>













subsection \<open>Delta and direction of a metric window\<close>

lemma round2_zero [simp]: "round2 0 = 0"
  by (simp add: round2_def)

lemma mapE_Inr:
  "(\<forall>x \<in> set xs. \<exists>y. f x = Inr y) \<Longrightarrow> \<exists>ys. mapE f xs = Inr ys \<and> length ys = length xs"
  by (induction xs) auto

lemma toISOString_in_range:
  "\<bar>t\<bar> \<le> 8640000000000000 \<Longrightarrow> \<exists>ts. toISOString t = Inr ts"
  by (simp add: toISOString_def)






subsection \<open>Fallback when no source yields events\<close>

lemma composeNarrative_starts:
  "\<exists>rest. composeNarrative ms = Inr (''Live telemetry '' @ rest)"
proof (cases "sort_key (\<lambda>m. - severityScore m) ms")
  case Nil
  then show ?thesis by (simp add: composeNarrative_def)
next
  case (Cons p rest)
  then show ?thesis
    by (cases "List.find (\<lambda>metric. metric_id metric \<noteq> metric_id p) (p # rest)")
       (simp_all add: composeNarrative_def findE_total)
qed

lemma syntheticMetric_returns:
  assumes "validClock issuedAt"
  shows "\<exists>m. syntheticMetric tick issuedAt metadata = Inr m"
proof (cases "syntheticById (m_id metadata)")
  case None
  then show ?thesis by (simp add: syntheticMetric_def)
next
  case (Some d)
  let ?f = "\<lambda>index.
             (let back = int TREND_POINTS - 1 - index;
                  currentTick = tick - back;
                  v = computeValue d currentTick
              in case toISOString (real_of_int (issuedAt - back * 15000)) of
                   Inl e \<Rightarrow> Inl e
                 | Inr ts \<Rightarrow> Inr \<lparr> tp_timestamp = ts, tp_value = round2 v \<rparr>)"
  have "\<forall>index \<in> set (rev [0 .. int TREND_POINTS - 1]). \<exists>y. ?f index = Inr y"
  proof
    fix index assume "index \<in> set (rev [0 .. int TREND_POINTS - 1])"
    then have r: "0 \<le> index" "index \<le> 9" by (simp_all add: TREND_POINTS_def)
    have "\<bar>real_of_int (issuedAt - (int TREND_POINTS - 1 - index) * 15000)\<bar> \<le> 8640000000000000"
      using assms r by (simp add: validClock_def TREND_POINTS_def abs_le_iff)
    from toISOString_in_range [OF this] show "\<exists>y. ?f index = Inr y"
      by (auto simp: Let_def)
  qed
  from mapE_Inr [OF this] obtain ys where "buildTrend d tick issuedAt = Inr ys"
    unfolding buildTrend_def by blast
  with Some show ?thesis by (simp add: syntheticMetric_def Let_def)
qed

lemma generateSyntheticSnapshot_returns:
  assumes "validClock issuedAt"
  shows "\<exists>s. generateSyntheticSnapshot window issuedAt = Inr s
            \<and> length (metrics s) = length liveMetricCatalog
            \<and> narrative s \<noteq> []
            \<and> generatedAt s = issuedAt \<and> windowSeconds s = window"
proof -
  have "\<forall>md \<in> set liveMetricCatalog. \<exists>m. syntheticMetric (issuedAt div 15000) issuedAt md = Inr m"
    using syntheticMetric_returns [OF assms] by blast
  from mapE_Inr [OF this] obtain ms
    where ms: "mapE (syntheticMetric (issuedAt div 15000) issuedAt) liveMetricCatalog = Inr ms"
      and len: "length ms = length liveMetricCatalog" by blast
  have iso: "toISOString (real_of_int issuedAt) = Inr issuedAt"
    using assms by (auto simp: toISOString_def validClock_def)
  obtain rest where n: "composeNarrative ms = Inr (''Live telemetry '' @ rest)"
    using composeNarrative_starts by blast
  show ?thesis
    by (simp add: generateSyntheticSnapshot_def Let_def ms iso n len)
qed

lemma mapE_Inr_map:
  "mapE f xs = Inr ys \<Longrightarrow> (\<And>x y. x \<in> set xs \<Longrightarrow> f x = Inr y \<Longrightarrow> g y = h x)
     \<Longrightarrow> map g ys = map h xs"
  by (induction xs arbitrary: ys) (auto split: sum.splits)

lemma buildStaticMetric_id:
  "md \<in> set liveMetricCatalog \<Longrightarrow> metric_id (buildStaticMetric (m_id md)) = m_id md"
  by (auto simp: buildStaticMetric_def liveMetricMetadataById_def newMap_def
        liveMetricCatalog_def liveMetricDefinitions_def toMetadata_def)

lemma syntheticMetric_id:
  "md \<in> set liveMetricCatalog \<Longrightarrow> syntheticMetric tick issuedAt md = Inr m
     \<Longrightarrow> metric_id m = m_id md"
  by (auto simp: syntheticMetric_def Let_def buildStaticMetric_id split: option.splits sum.splits)

lemma generateSyntheticSnapshot_ids:
  assumes "generateSyntheticSnapshot window issuedAt = Inr s"
  shows "map metric_id (metrics s) = map m_id liveMetricCatalog"
proof -
  from assms obtain ms where
    ms: "mapE (syntheticMetric (issuedAt div 15000) issuedAt) liveMetricCatalog = Inr ms"
    and s: "metrics s = ms"
    by (auto simp: generateSyntheticSnapshot_def Let_def split: sum.splits)
  have "map metric_id ms = map m_id liveMetricCatalog"
    by (rule mapE_Inr_map [OF ms]) (rule syntheticMetric_id)
  then show ?thesis by (simp add: s)
qed

lemma loadStreamEvents_nothing:
  assumes "allAdaptersYieldZero pollMs st call"
  shows "fst (loadStreamEvents pollMs (sources call) (remoteStreamCache st) (loadNow call)) = []"
  using assms
  by (auto simp: allAdaptersYieldZero_def loadStreamEvents_def deliversNothing_def
        readFileEvents_def split: sum.splits)

text \<open>
  C1. A call of \<open>getLiveAnalyticsSnapshot\<close> that builds (the cache is empty or stale) while
  all three adapters yield zero events returns, without error, the synthetic fallback
  snapshot: the result of \<open>generateSyntheticSnapshot\<close>, whose \<open>metrics\<close> has one entry per
  catalog metric, in catalog order and under the catalog's ids, and whose \<open>narrative\<close> is
  not empty. (\<open>validClock\<close>: the clock reading is
  a time value of \<open>Date\<close>, as \<open>Date.now()\<close> always is.)
\<close>

theorem no_events_gives_synthetic_fallback:
  "\<not> cacheFresh st call \<and> allAdaptersYieldZero pollMs st call \<and> validClock (issuedNow call)
   \<longrightarrow> (\<exists>s. fst (getLiveAnalyticsSnapshot window pollMs st call) = Inr s
            \<and> generateSyntheticSnapshot window (issuedNow call) = Inr s
            \<and> length (metrics s) = length liveMetricCatalog
            \<and> map metric_id (metrics s) = map m_id liveMetricCatalog
            \<and> narrative s \<noteq> [])"
proof
  assume h: "\<not> cacheFresh st call \<and> allAdaptersYieldZero pollMs st call \<and> validClock (issuedNow call)"
  then obtain s where s: "generateSyntheticSnapshot window (issuedNow call) = Inr s"
      "length (metrics s) = length liveMetricCatalog" "narrative s \<noteq> []"
    using generateSyntheticSnapshot_returns by blast
  from h have ev: "fst (loadStreamEvents pollMs (sources call) (remoteStreamCache st) (loadNow call)) = []"
    using loadStreamEvents_nothing by blast
  have "fst (getLiveAnalyticsSnapshot window pollMs st call) = Inr s"
    using h ev s(1)
    by (auto simp: getLiveAnalyticsSnapshot_def cacheFresh_def buildSnapshot_def
          split: prod.splits)
  moreover have "map metric_id (metrics s) = map m_id liveMetricCatalog"
    using generateSyntheticSnapshot_ids [OF s(1)] .
  ultimately show "\<exists>s. fst (getLiveAnalyticsSnapshot window pollMs st call) = Inr s
            \<and> generateSyntheticSnapshot window (issuedNow call) = Inr s
            \<and> length (metrics s) = length liveMetricCatalog
            \<and> map metric_id (metrics s) = map m_id liveMetricCatalog
            \<and> narrative s \<noteq> []" using s by blast
qed

theorem no_events_gives_synthetic_fallback_witness:
  "\<exists>s. fst (getLiveAnalyticsSnapshot 120 15000 initialState
              \<lparr> now = 1700000000000, loadNow = 1700000000001, issuedNow = 1700000000002,
                sources = \<lparr> kafkaEnabled = True, kafkaOutcome = Inl IOError,
                            streamUrlSet = True, fetchOutcome = Inl IOError,
                            fileOutcome = Inl IOError \<rparr> \<rparr>) = Inr s
       \<and> length (metrics s) = 4 \<and> narrative s \<noteq> []"
proof -
  let ?call = "\<lparr> now = 1700000000000, loadNow = 1700000000001, issuedNow = 1700000000002,
                sources = \<lparr> kafkaEnabled = True, kafkaOutcome = Inl IOError,
                            streamUrlSet = True, fetchOutcome = Inl IOError,
                            fileOutcome = Inl IOError \<rparr> \<rparr>"
  have "\<not> cacheFresh initialState ?call"
    by (simp add: cacheFresh_def initialState_def)
  moreover have "allAdaptersYieldZero 15000 initialState ?call"
    by (simp add: allAdaptersYieldZero_def deliversNothing_def initialState_def)
  moreover have "validClock (issuedNow ?call)"
    by (simp add: validClock_def)
  moreover have "length liveMetricCatalog = 4"
    by (simp add: liveMetricCatalog_def liveMetricDefinitions_def)
  ultimately show ?thesis
    using no_events_gives_synthetic_fallback [of initialState ?call 15000 120] by auto
qed

subsection \<open>Snapshot cache\<close>







subsection \<open>Synthetic waveform\<close>







end
